theory Spec2Isabelle
  imports Main "HOL-Library.Word" "HOL-Library.AList"
begin

unbundle bit_operations_syntax

section \<open>Values of the program\<close>

text \<open>
  The program (\<^verbatim>\<open>pz5.py\<close>) works on what \<^verbatim>\<open>r.json()\<close> returns: Python values decoded from
  JSON. A Python \<^verbatim>\<open>str\<close> is modelled by its UTF-8 bytes; the operations the program uses on
  strings (concatenation, emptiness, \<^verbatim>\<open>endswith\<close> of an ASCII suffix, \<^verbatim>\<open>join\<close>) commute
  with that encoding. A Python \<^verbatim>\<open>int\<close> is unbounded, a \<^verbatim>\<open>float\<close> is an IEEE 754 double,
  kept as its 64 bits. A \<^verbatim>\<open>dict\<close> is the list of its items in insertion order (its keys are
  distinct); \<^verbatim>\<open>None\<close> is \<open>JNull\<close>.
\<close>

datatype json =
    JNull
  | JBool bool
  | JInt int
  | JFloat "64 word"
  | JStr string
  | JArr "json list"
  | JObj "(string \<times> json) list"

type_synonym dict = "(string \<times> json) list"

datatype error =
    AttributeError
  | TypeError
  | TransportError
  | HTTPError nat
  | JSONDecodeError

text \<open>
  Python's truth value of a decoded JSON value: \<^verbatim>\<open>None\<close>, \<^verbatim>\<open>False\<close>, zero (\<^verbatim>\<open>0\<close>, \<^verbatim>\<open>0.0\<close>
  and \<^verbatim>\<open>-0.0\<close>: all bits but the sign are clear), the empty string, the empty list and
  the empty dict are false, everything else is true.
\<close>

fun truthy :: "json \<Rightarrow> bool" where
  "truthy JNull = False"
| "truthy (JBool b) = b"
| "truthy (JInt i) = (i \<noteq> 0)"
| "truthy (JFloat w) = (w AND 0x7FFFFFFFFFFFFFFF \<noteq> 0)"
| "truthy (JStr s) = (s \<noteq> [])"
| "truthy (JArr xs) = (xs \<noteq> [])"
| "truthy (JObj d) = (d \<noteq> [])"

text \<open>\<^verbatim>\<open>a or b\<close>: the first operand when it is true, the second otherwise.\<close>

definition py_or :: "json \<Rightarrow> json \<Rightarrow> json" where
  "py_or a b = (if truthy a then a else b)"

text \<open>\<^verbatim>\<open>d.get(k, default)\<close> and \<^verbatim>\<open>d.get(k)\<close> (whose default is \<^verbatim>\<open>None\<close>) on a dict.\<close>

definition dict_get_default :: "dict \<Rightarrow> string \<Rightarrow> json \<Rightarrow> json" where
  "dict_get_default d k dflt = (case map_of d k of None \<Rightarrow> dflt | Some v \<Rightarrow> v)"

definition dict_get :: "dict \<Rightarrow> string \<Rightarrow> json" where
  "dict_get d k = dict_get_default d k JNull"

text \<open>
  \<^verbatim>\<open>x.get(k, default)\<close> on any value: only a dict has the attribute \<^verbatim>\<open>get\<close>, every other
  decoded value raises \<^verbatim>\<open>AttributeError\<close>.
\<close>

definition py_get_default :: "json \<Rightarrow> string \<Rightarrow> json \<Rightarrow> error + json" where
  "py_get_default x k dflt =
     (case x of JObj d \<Rightarrow> Inr (dict_get_default d k dflt) | _ \<Rightarrow> Inl AttributeError)"

definition py_get :: "json \<Rightarrow> string \<Rightarrow> error + json" where
  "py_get x k = py_get_default x k JNull"

section \<open>The field extractor\<close>

text \<open>
  \<^verbatim>\<open>extract_kcal(nutriments)\<close>. Its first statement \<^verbatim>\<open>get = nutriments.get\<close> raises
  \<^verbatim>\<open>AttributeError\<close> unless \<^verbatim>\<open>nutriments\<close> is a dict. Its local dict \<^verbatim>\<open>data\<close> has eight
  keys, in this order, and the result keeps the items of \<^verbatim>\<open>data\<close> whose value
  \<^verbatim>\<open>is not None\<close>.
\<close>

definition extract_data :: "dict \<Rightarrow> dict" where
  "extract_data d =
     (let get = dict_get d
      in [(''kcal_100g'', py_or (get ''energy-kcal_100g'') (get ''energy-kcal_value'')),
          (''protein_100g'', get ''proteins_100g''),
          (''fat_100g'', get ''fat_100g''),
          (''carbs_100g'', get ''carbohydrates_100g''),
          (''kcal_serving'', get ''energy-kcal_serving''),
          (''protein_serving'', get ''proteins_serving''),
          (''fat_serving'', get ''fat_serving''),
          (''carbs_serving'', get ''carbohydrates_serving'')])"

definition extract_kcal :: "json \<Rightarrow> error + dict" where
  "extract_kcal nutriments =
     (case nutriments of
        JObj d \<Rightarrow> Inr (filter (\<lambda>(k, v). v \<noteq> JNull) (extract_data d))
      | _ \<Rightarrow> Inl AttributeError)"

section \<open>Rendering values as text\<close>

text \<open>
  \<^verbatim>\<open>str(v)\<close>, which is also what an f-string field \<^verbatim>\<open>{v}\<close> inserts: a string is itself,
  an \<^verbatim>\<open>int\<close> is its decimal numeral, \<^verbatim>\<open>True\<close>, \<^verbatim>\<open>False\<close> and \<^verbatim>\<open>None\<close> are their names. The
  \<^verbatim>\<open>repr\<close> of a float, a list and a dict is Python's own and is taken as the parameter
  \<open>render\<close>.
\<close>

definition digit_char :: "nat \<Rightarrow> char" where
  \<comment> \<open>the digit of a number below ten\<close>
  "digit_char d = ''0123456789'' ! d"

fun dec_digits :: "nat \<Rightarrow> string" where
  "dec_digits n =
     (if n < 10 then [digit_char n] else dec_digits (n div 10) @ [digit_char (n mod 10)])"

declare dec_digits.simps [simp del]

definition py_str :: "(json \<Rightarrow> string) \<Rightarrow> json \<Rightarrow> string" where
  "py_str render v =
     (case v of
        JStr s \<Rightarrow> s
      | JInt i \<Rightarrow> (if i < 0 then CHR ''-'' # dec_digits (nat (- i)) else dec_digits (nat i))
      | JBool b \<Rightarrow> (if b then ''True'' else ''False'')
      | JNull \<Rightarrow> ''None''
      | _ \<Rightarrow> render v)"

text \<open>\<^verbatim>\<open>s.endswith(suffix)\<close> and \<^verbatim>\<open>"\n".join(lines)\<close>.\<close>

definition ends_with :: "string \<Rightarrow> string \<Rightarrow> bool" where
  "ends_with s suf = (length suf \<le> length s \<and> drop (length s - length suf) s = suf)"

fun join_lines :: "string list \<Rightarrow> string" where
  "join_lines [] = []"
| "join_lines [l] = l"
| "join_lines (l # ls) = l @ CHR 0x0A # join_lines ls"

section \<open>The texts of the program\<close>

text \<open>The string literals of the source, as their UTF-8 bytes.\<close>

definition dash :: string where
  \<comment> \<open>the placeholder dash, U+2014\<close>
  "dash =
    [CHR 0xE2, CHR 0x80, CHR 0x94]"

definition label_name :: string where
  \<comment> \<open>Nazvanie:  (name)\<close>
  "label_name =
    [CHR 0xD0, CHR 0x9D, CHR 0xD0, CHR 0xB0, CHR 0xD0, CHR 0xB7, CHR 0xD0, CHR 0xB2,
     CHR 0xD0, CHR 0xB0, CHR 0xD0, CHR 0xBD, CHR 0xD0, CHR 0xB8, CHR 0xD0, CHR 0xB5,
     CHR 0x3A, CHR 0x20]"

definition label_brand :: string where
  \<comment> \<open>Brend:  (brand)\<close>
  "label_brand =
    [CHR 0xD0, CHR 0x91, CHR 0xD1, CHR 0x80, CHR 0xD0, CHR 0xB5, CHR 0xD0, CHR 0xBD,
     CHR 0xD0, CHR 0xB4, CHR 0x3A, CHR 0x20]"

definition label_code :: string where
  \<comment> \<open>Shtrikhkod:  (barcode)\<close>
  "label_code =
    [CHR 0xD0, CHR 0xA8, CHR 0xD1, CHR 0x82, CHR 0xD1, CHR 0x80, CHR 0xD0, CHR 0xB8,
     CHR 0xD1, CHR 0x85, CHR 0xD0, CHR 0xBA, CHR 0xD0, CHR 0xBE, CHR 0xD0, CHR 0xB4,
     CHR 0x3A, CHR 0x20]"

definition label_quantity :: string where
  \<comment> \<open>Upakovka:  (package quantity)\<close>
  "label_quantity =
    [CHR 0xD0, CHR 0xA3, CHR 0xD0, CHR 0xBF, CHR 0xD0, CHR 0xB0, CHR 0xD0, CHR 0xBA,
     CHR 0xD0, CHR 0xBE, CHR 0xD0, CHR 0xB2, CHR 0xD0, CHR 0xBA, CHR 0xD0, CHR 0xB0,
     CHR 0x3A, CHR 0x20]"

definition label_serving :: string where
  \<comment> \<open>Portsiya:  (serving size)\<close>
  "label_serving =
    [CHR 0xD0, CHR 0x9F, CHR 0xD0, CHR 0xBE, CHR 0xD1, CHR 0x80, CHR 0xD1, CHR 0x86,
     CHR 0xD0, CHR 0xB8, CHR 0xD1, CHR 0x8F, CHR 0x3A, CHR 0x20]"

definition nutrients_title :: string where
  \<comment> \<open>Pitatel'nye veshchestva: (nutrients)\<close>
  "nutrients_title =
    [CHR 0xD0, CHR 0x9F, CHR 0xD0, CHR 0xB8, CHR 0xD1, CHR 0x82, CHR 0xD0, CHR 0xB0,
     CHR 0xD1, CHR 0x82, CHR 0xD0, CHR 0xB5, CHR 0xD0, CHR 0xBB, CHR 0xD1, CHR 0x8C,
     CHR 0xD0, CHR 0xBD, CHR 0xD1, CHR 0x8B, CHR 0xD0, CHR 0xB5, CHR 0x20, CHR 0xD0,
     CHR 0xB2, CHR 0xD0, CHR 0xB5, CHR 0xD1, CHR 0x89, CHR 0xD0, CHR 0xB5, CHR 0xD1,
     CHR 0x81, CHR 0xD1, CHR 0x82, CHR 0xD0, CHR 0xB2, CHR 0xD0, CHR 0xB0, CHR 0x3A]"

definition no_data_line :: string where
  \<comment> \<open>  dannye o BZhU ne naideny (no nutrient data found)\<close>
  "no_data_line =
    [CHR 0x20, CHR 0x20, CHR 0xD0, CHR 0xB4, CHR 0xD0, CHR 0xB0, CHR 0xD0, CHR 0xBD,
     CHR 0xD0, CHR 0xBD, CHR 0xD1, CHR 0x8B, CHR 0xD0, CHR 0xB5, CHR 0x20, CHR 0xD0,
     CHR 0xBE, CHR 0x20, CHR 0xD0, CHR 0x91, CHR 0xD0, CHR 0x96, CHR 0xD0, CHR 0xA3,
     CHR 0x20, CHR 0xD0, CHR 0xBD, CHR 0xD0, CHR 0xB5, CHR 0x20, CHR 0xD0, CHR 0xBD,
     CHR 0xD0, CHR 0xB0, CHR 0xD0, CHR 0xB9, CHR 0xD0, CHR 0xB4, CHR 0xD0, CHR 0xB5,
     CHR 0xD0, CHR 0xBD, CHR 0xD1, CHR 0x8B]"

definition label_kcal_100g :: string where
  \<comment> \<open>  Kalorii na 100 g: \<close>
  "label_kcal_100g =
    [CHR 0x20, CHR 0x20, CHR 0xD0, CHR 0x9A, CHR 0xD0, CHR 0xB0, CHR 0xD0, CHR 0xBB,
     CHR 0xD0, CHR 0xBE, CHR 0xD1, CHR 0x80, CHR 0xD0, CHR 0xB8, CHR 0xD0, CHR 0xB8,
     CHR 0x20, CHR 0xD0, CHR 0xBD, CHR 0xD0, CHR 0xB0, CHR 0x20, CHR 0x31, CHR 0x30,
     CHR 0x30, CHR 0x20, CHR 0xD0, CHR 0xB3, CHR 0x3A, CHR 0x20]"

definition label_protein_100g :: string where
  \<comment> \<open>  Belok na 100 g: \<close>
  "label_protein_100g =
    [CHR 0x20, CHR 0x20, CHR 0xD0, CHR 0x91, CHR 0xD0, CHR 0xB5, CHR 0xD0, CHR 0xBB,
     CHR 0xD0, CHR 0xBE, CHR 0xD0, CHR 0xBA, CHR 0x20, CHR 0xD0, CHR 0xBD, CHR 0xD0,
     CHR 0xB0, CHR 0x20, CHR 0x31, CHR 0x30, CHR 0x30, CHR 0x20, CHR 0xD0, CHR 0xB3,
     CHR 0x3A, CHR 0x20]"

definition label_fat_100g :: string where
  \<comment> \<open>  Zhiry na 100 g: \<close>
  "label_fat_100g =
    [CHR 0x20, CHR 0x20, CHR 0xD0, CHR 0x96, CHR 0xD0, CHR 0xB8, CHR 0xD1, CHR 0x80,
     CHR 0xD1, CHR 0x8B, CHR 0x20, CHR 0xD0, CHR 0xBD, CHR 0xD0, CHR 0xB0, CHR 0x20,
     CHR 0x31, CHR 0x30, CHR 0x30, CHR 0x20, CHR 0xD0, CHR 0xB3, CHR 0x3A, CHR 0x20]"

definition label_carbs_100g :: string where
  \<comment> \<open>  Uglevody na 100 g: \<close>
  "label_carbs_100g =
    [CHR 0x20, CHR 0x20, CHR 0xD0, CHR 0xA3, CHR 0xD0, CHR 0xB3, CHR 0xD0, CHR 0xBB,
     CHR 0xD0, CHR 0xB5, CHR 0xD0, CHR 0xB2, CHR 0xD0, CHR 0xBE, CHR 0xD0, CHR 0xB4,
     CHR 0xD1, CHR 0x8B, CHR 0x20, CHR 0xD0, CHR 0xBD, CHR 0xD0, CHR 0xB0, CHR 0x20,
     CHR 0x31, CHR 0x30, CHR 0x30, CHR 0x20, CHR 0xD0, CHR 0xB3, CHR 0x3A, CHR 0x20]"

definition serving_title :: string where
  \<comment> \<open>Na portsiyu: (per serving)\<close>
  "serving_title =
    [CHR 0xD0, CHR 0x9D, CHR 0xD0, CHR 0xB0, CHR 0x20, CHR 0xD0, CHR 0xBF, CHR 0xD0,
     CHR 0xBE, CHR 0xD1, CHR 0x80, CHR 0xD1, CHR 0x86, CHR 0xD0, CHR 0xB8, CHR 0xD1,
     CHR 0x8E, CHR 0x3A]"

definition label_kcal_serving :: string where
  \<comment> \<open>  Kalorii na portsiyu: \<close>
  "label_kcal_serving =
    [CHR 0x20, CHR 0x20, CHR 0xD0, CHR 0x9A, CHR 0xD0, CHR 0xB0, CHR 0xD0, CHR 0xBB,
     CHR 0xD0, CHR 0xBE, CHR 0xD1, CHR 0x80, CHR 0xD0, CHR 0xB8, CHR 0xD0, CHR 0xB8,
     CHR 0x20, CHR 0xD0, CHR 0xBD, CHR 0xD0, CHR 0xB0, CHR 0x20, CHR 0xD0, CHR 0xBF,
     CHR 0xD0, CHR 0xBE, CHR 0xD1, CHR 0x80, CHR 0xD1, CHR 0x86, CHR 0xD0, CHR 0xB8,
     CHR 0xD1, CHR 0x8E, CHR 0x3A, CHR 0x20]"

definition label_protein_serving :: string where
  \<comment> \<open>  Belok na portsiyu: \<close>
  "label_protein_serving =
    [CHR 0x20, CHR 0x20, CHR 0xD0, CHR 0x91, CHR 0xD0, CHR 0xB5, CHR 0xD0, CHR 0xBB,
     CHR 0xD0, CHR 0xBE, CHR 0xD0, CHR 0xBA, CHR 0x20, CHR 0xD0, CHR 0xBD, CHR 0xD0,
     CHR 0xB0, CHR 0x20, CHR 0xD0, CHR 0xBF, CHR 0xD0, CHR 0xBE, CHR 0xD1, CHR 0x80,
     CHR 0xD1, CHR 0x86, CHR 0xD0, CHR 0xB8, CHR 0xD1, CHR 0x8E, CHR 0x3A, CHR 0x20]"

definition label_fat_serving :: string where
  \<comment> \<open>  Zhiry na portsiyu: \<close>
  "label_fat_serving =
    [CHR 0x20, CHR 0x20, CHR 0xD0, CHR 0x96, CHR 0xD0, CHR 0xB8, CHR 0xD1, CHR 0x80,
     CHR 0xD1, CHR 0x8B, CHR 0x20, CHR 0xD0, CHR 0xBD, CHR 0xD0, CHR 0xB0, CHR 0x20,
     CHR 0xD0, CHR 0xBF, CHR 0xD0, CHR 0xBE, CHR 0xD1, CHR 0x80, CHR 0xD1, CHR 0x86,
     CHR 0xD0, CHR 0xB8, CHR 0xD1, CHR 0x8E, CHR 0x3A, CHR 0x20]"

definition label_carbs_serving :: string where
  \<comment> \<open>  Uglevody na portsiyu: \<close>
  "label_carbs_serving =
    [CHR 0x20, CHR 0x20, CHR 0xD0, CHR 0xA3, CHR 0xD0, CHR 0xB3, CHR 0xD0, CHR 0xBB,
     CHR 0xD0, CHR 0xB5, CHR 0xD0, CHR 0xB2, CHR 0xD0, CHR 0xBE, CHR 0xD0, CHR 0xB4,
     CHR 0xD1, CHR 0x8B, CHR 0x20, CHR 0xD0, CHR 0xBD, CHR 0xD0, CHR 0xB0, CHR 0x20,
     CHR 0xD0, CHR 0xBF, CHR 0xD0, CHR 0xBE, CHR 0xD1, CHR 0x80, CHR 0xD1, CHR 0x86,
     CHR 0xD0, CHR 0xB8, CHR 0xD1, CHR 0x8E, CHR 0x3A, CHR 0x20]"

definition result_title :: string where
  \<comment> \<open>Rezul'tat (result), the dialog title\<close>
  "result_title =
    [CHR 0xD0, CHR 0xA0, CHR 0xD0, CHR 0xB5, CHR 0xD0, CHR 0xB7, CHR 0xD1, CHR 0x83,
     CHR 0xD0, CHR 0xBB, CHR 0xD1, CHR 0x8C, CHR 0xD1, CHR 0x82, CHR 0xD0, CHR 0xB0,
     CHR 0xD1, CHR 0x82]"

definition product_not_found :: string where
  \<comment> \<open>Produkt ne naiden. (product not found)\<close>
  "product_not_found =
    [CHR 0xD0, CHR 0x9F, CHR 0xD1, CHR 0x80, CHR 0xD0, CHR 0xBE, CHR 0xD0, CHR 0xB4,
     CHR 0xD1, CHR 0x83, CHR 0xD0, CHR 0xBA, CHR 0xD1, CHR 0x82, CHR 0x20, CHR 0xD0,
     CHR 0xBD, CHR 0xD0, CHR 0xB5, CHR 0x20, CHR 0xD0, CHR 0xBD, CHR 0xD0, CHR 0xB0,
     CHR 0xD0, CHR 0xB9, CHR 0xD0, CHR 0xB4, CHR 0xD0, CHR 0xB5, CHR 0xD0, CHR 0xBD,
     CHR 0x2E]"

definition nothing_found :: string where
  \<comment> \<open>Nichego ne naideno. (nothing found)\<close>
  "nothing_found =
    [CHR 0xD0, CHR 0x9D, CHR 0xD0, CHR 0xB8, CHR 0xD1, CHR 0x87, CHR 0xD0, CHR 0xB5,
     CHR 0xD0, CHR 0xB3, CHR 0xD0, CHR 0xBE, CHR 0x20, CHR 0xD0, CHR 0xBD, CHR 0xD0,
     CHR 0xB5, CHR 0x20, CHR 0xD0, CHR 0xBD, CHR 0xD0, CHR 0xB0, CHR 0xD0, CHR 0xB9,
     CHR 0xD0, CHR 0xB4, CHR 0xD0, CHR 0xB5, CHR 0xD0, CHR 0xBD, CHR 0xD0, CHR 0xBE,
     CHR 0x2E]"

section \<open>The detail formatter\<close>

text \<open>
  \<^verbatim>\<open>if key in nutr: lines.append(f"{label}{nutr[key]}")\<close>: the membership test and the
  subscript read the same item, so the subscript never raises \<^verbatim>\<open>KeyError\<close>.
\<close>

definition append_if_in :: "(json \<Rightarrow> string) \<Rightarrow> dict \<Rightarrow> string \<Rightarrow> string \<Rightarrow> string list \<Rightarrow> string list" where
  "append_if_in render nutr key label lines =
     (case map_of nutr key of None \<Rightarrow> lines | Some v \<Rightarrow> lines @ [label @ py_str render v])"

text \<open>
  \<^verbatim>\<open>format_product_details(product)\<close> up to its last statement: the list \<^verbatim>\<open>lines\<close>.
  \<^verbatim>\<open>product.get\<close> raises \<^verbatim>\<open>AttributeError\<close> unless \<^verbatim>\<open>product\<close> is a dict, and so does
  \<^verbatim>\<open>extract_kcal\<close> on a \<^verbatim>\<open>nutriments\<close> entry that is present and not a dict.
\<close>

definition format_product_lines :: "(json \<Rightarrow> string) \<Rightarrow> json \<Rightarrow> error + string list" where
  "format_product_lines render product =
     (case product of
        JObj p \<Rightarrow>
          (let name = py_or (dict_get p ''product_name'') (JStr dash);
               brand = py_or (dict_get p ''brands'') (JStr dash);
               code = py_or (dict_get p ''code'') (JStr dash);
               quantity = py_or (dict_get p ''quantity'') (JStr dash);
               serving = py_or (dict_get p ''serving_size'') (JStr dash)
           in case extract_kcal (dict_get_default p ''nutriments'' (JObj [])) of
                Inl e \<Rightarrow> Inl e
              | Inr nutr \<Rightarrow>
                  (let lines =
                         [label_name @ py_str render name,
                          label_brand @ py_str render brand,
                          label_code @ py_str render code,
                          label_quantity @ py_str render quantity,
                          label_serving @ py_str render serving,
                          [],
                          nutrients_title]
                   in Inr
                     (if nutr = [] then lines @ [no_data_line]
                      else
                        (let lines = append_if_in render nutr ''kcal_100g'' label_kcal_100g lines;
                             lines = append_if_in render nutr ''protein_100g'' label_protein_100g lines;
                             lines = append_if_in render nutr ''fat_100g'' label_fat_100g lines;
                             lines = append_if_in render nutr ''carbs_100g'' label_carbs_100g lines
                         in if list_ex (\<lambda>k. ends_with k ''_serving'') (map fst nutr)
                            then
                              (let lines = lines @ [[]];
                                   lines = lines @ [serving_title];
                                   lines = append_if_in render nutr ''kcal_serving'' label_kcal_serving lines;
                                   lines = append_if_in render nutr ''protein_serving'' label_protein_serving lines;
                                   lines = append_if_in render nutr ''fat_serving'' label_fat_serving lines;
                                   lines = append_if_in render nutr ''carbs_serving'' label_carbs_serving lines
                               in lines)
                            else lines))))
      | _ \<Rightarrow> Inl AttributeError)"

text \<open>The whole function: the lines joined by newlines.\<close>

definition format_product_details :: "(json \<Rightarrow> string) \<Rightarrow> json \<Rightarrow> error + string" where
  "format_product_details render product =
     (case format_product_lines render product of
        Inl e \<Rightarrow> Inl e
      | Inr lines \<Rightarrow> Inr (join_lines lines))"

section \<open>The API client\<close>

text \<open>
  The network is outside the program and is a parameter: \<open>remote\<close> answers the request that
  \<^verbatim>\<open>requests.get(url, headers=HEADERS, params=params, timeout=20)\<close> sends, either with the
  exception \<^verbatim>\<open>requests.get\<close> raises or with a response, whose body is given decoded when
  it is JSON (\<open>None\<close> when \<^verbatim>\<open>r.json()\<close> cannot decode it).
\<close>

record request =
  req_url :: string
  req_headers :: "(string \<times> string) list"
  req_params :: "(string \<times> json) list"
  req_timeout :: nat

datatype response = Response nat "json option"

type_synonym remote = "request \<Rightarrow> error + response"

definition BASE :: string where
  "BASE = ''https://world.openfoodfacts.org''"

definition HEADERS :: "(string \<times> string) list" where
  "HEADERS =
     [(''User-Agent'', ''Darcons-Trade-CalorieFetcher/1.0 (+https://darcons-trade.example)'')]"

text \<open>
  \<^verbatim>\<open>r.raise_for_status()\<close> raises \<^verbatim>\<open>HTTPError\<close> for a status from 400 to 599, and
  \<^verbatim>\<open>return r.json()\<close> returns the decoded body, the whole of it.
\<close>

definition checked_json :: "error + response \<Rightarrow> error + json" where
  "checked_json r =
     (case r of
        Inl e \<Rightarrow> Inl e
      | Inr (Response status_code body) \<Rightarrow>
          if 400 \<le> status_code \<and> status_code < 600 then Inl (HTTPError status_code)
          else (case body of None \<Rightarrow> Inl JSONDecodeError | Some data \<Rightarrow> Inr data))"

text \<open>
  The request of \<^verbatim>\<open>get_product_by_barcode\<close>: its \<^verbatim>\<open>url\<close> and \<^verbatim>\<open>params\<close>, with the default
  field list when \<^verbatim>\<open>fields is None\<close>.
\<close>

definition product_request :: "string \<Rightarrow> string option \<Rightarrow> string \<Rightarrow> string \<Rightarrow> request" where
  "product_request barcode fields_arg lang country =
     (let field_list =
            (case fields_arg of
               None \<Rightarrow> ''code,product_name,nutriments,brands,quantity,serving_size,language,lang,lc''
             | Some f \<Rightarrow> f);
          url = BASE @ ''/api/v2/product/'' @ barcode;
          params = [(''fields'', JStr field_list), (''lc'', JStr lang), (''cc'', JStr country)]
      in \<lparr>req_url = url, req_headers = HEADERS, req_params = params, req_timeout = 20\<rparr>)"

definition get_product_by_barcode ::
    "remote \<Rightarrow> string \<Rightarrow> string option \<Rightarrow> string \<Rightarrow> string \<Rightarrow> error + json" where
  "get_product_by_barcode remote barcode fields_arg lang country =
     checked_json (remote (product_request barcode fields_arg lang country))"

text \<open>The request of \<^verbatim>\<open>search_products\<close>, and the function.\<close>

definition search_request :: "string \<Rightarrow> int \<Rightarrow> string option \<Rightarrow> string \<Rightarrow> string \<Rightarrow> request" where
  "search_request query page_size fields_arg lang country =
     (let field_list =
            (case fields_arg of
               None \<Rightarrow> ''code,product_name,brands,nutriments,quantity,serving_size,ecoscore_grade''
             | Some f \<Rightarrow> f);
          url = BASE @ ''/api/v2/search'';
          params =
            [(''search_terms'', JStr query),
             (''fields'', JStr field_list),
             (''page_size'', JInt page_size),
             (''lc'', JStr lang),
             (''cc'', JStr country)]
      in \<lparr>req_url = url, req_headers = HEADERS, req_params = params, req_timeout = 20\<rparr>)"

definition search_products ::
    "remote \<Rightarrow> string \<Rightarrow> int \<Rightarrow> string option \<Rightarrow> string \<Rightarrow> string \<Rightarrow> error + json" where
  "search_products remote query page_size fields_arg lang country =
     checked_json (remote (search_request query page_size fields_arg lang country))"

section \<open>The window\<close>

text \<open>
  What \<^verbatim>\<open>MainWindow.search_by_barcode\<close> and \<^verbatim>\<open>MainWindow.search_by_name\<close> read and write:
  the text of the detail pane, the cells of the table (a row is its four cells, empty
  until \<^verbatim>\<open>setItem\<close>), the stored result \<^verbatim>\<open>self.current_products\<close> and the message boxes
  shown so far. \<^verbatim>\<open>QTableWidgetItem\<close> is Qt's and is the parameter \<open>mk\<close>, which may reject its
  argument. A method returns normally or leaves with an exception, and keeps in both cases
  what it wrote to the window before.
\<close>

datatype dialog = Information string string

record 'i window =
  details_text :: string
  table_rows :: "'i option list list"
  current_products :: json
  dialogs :: "dialog list"

datatype outcome = Returned | Raised error

text \<open>
  \<^verbatim>\<open>len(x)\<close> and the items \<^verbatim>\<open>enumerate(x)\<close> walks through: a list has its elements, a dict
  its keys, a string its characters (a character is a byte that is not a UTF-8
  continuation byte, with the continuation bytes after it); the other values have no
  length.
\<close>

definition is_continuation :: "char \<Rightarrow> bool" where
  "is_continuation c = ((of_char c :: nat) div 64 = 2)"

fun utf8_chars :: "string \<Rightarrow> string list" where
  "utf8_chars [] = []"
| "utf8_chars (c # cs) =
     (case utf8_chars cs of
        [] \<Rightarrow> [[c]]
      | g # gs \<Rightarrow>
          (case g of
             [] \<Rightarrow> [c] # gs
           | b # bs \<Rightarrow> if is_continuation b then (c # g) # gs else [c] # g # gs))"

definition py_items :: "json \<Rightarrow> error + json list" where
  "py_items x =
     (case x of
        JArr xs \<Rightarrow> Inr xs
      | JObj d \<Rightarrow> Inr (map (\<lambda>(k, v). JStr k) d)
      | JStr s \<Rightarrow> Inr (map JStr (utf8_chars s))
      | _ \<Rightarrow> Inl TypeError)"

definition py_len :: "json \<Rightarrow> error + nat" where
  "py_len x = (case py_items x of Inl e \<Rightarrow> Inl e | Inr xs \<Rightarrow> Inr (length xs))"

text \<open>\<^verbatim>\<open>self.table.setItem(row, col, QTableWidgetItem(v))\<close>, after the statements before it.\<close>

definition set_item ::
    "(json \<Rightarrow> error + 'i) \<Rightarrow> nat \<Rightarrow> nat \<Rightarrow> json \<Rightarrow> outcome \<times> 'i option list list
       \<Rightarrow> outcome \<times> 'i option list list" where
  "set_item mk row col v st =
     (case st of
        (Raised e, t) \<Rightarrow> (Raised e, t)
      | (Returned, t) \<Rightarrow>
          (case mk v of
             Inl e \<Rightarrow> (Raised e, t)
           | Inr item \<Rightarrow> (Returned, t[row := (t ! row)[col := Some item]])))"

text \<open>The body of \<^verbatim>\<open>for row, p in enumerate(products)\<close>, from row \<open>row\<close> on.\<close>

fun fill_rows ::
    "(json \<Rightarrow> error + 'i) \<Rightarrow> (json \<Rightarrow> string) \<Rightarrow> nat \<Rightarrow> json list \<Rightarrow> 'i option list list
       \<Rightarrow> outcome \<times> 'i option list list" where
  "fill_rows mk render row [] t = (Returned, t)"
| "fill_rows mk render row (p # ps) t =
     (case p of
        JObj d \<Rightarrow>
          (let code = py_or (dict_get d ''code'') (JStr []);
               name = py_or (dict_get d ''product_name'') (JStr []);
               brand = py_or (dict_get d ''brands'') (JStr [])
           in case extract_kcal (dict_get_default d ''nutriments'' (JObj [])) of
                Inl e \<Rightarrow> (Raised e, t)
              | Inr nutr \<Rightarrow>
                  (let kcal_100g = dict_get_default nutr ''kcal_100g'' (JStr [])
                   in case set_item mk row 3 (JStr (py_str render kcal_100g))
                             (set_item mk row 2 brand
                               (set_item mk row 1 name
                                 (set_item mk row 0 code (Returned, t)))) of
                        (Raised e, t') \<Rightarrow> (Raised e, t')
                      | (Returned, t') \<Rightarrow> fill_rows mk render (Suc row) ps t'))
      | _ \<Rightarrow> (Raised AttributeError, t))"

definition search_by_barcode ::
    "remote \<Rightarrow> (json \<Rightarrow> string) \<Rightarrow> string \<Rightarrow> 'i window \<Rightarrow> outcome \<times> 'i window" where
  "search_by_barcode remote render barcode self =
     (let self = self\<lparr>details_text := [], table_rows := []\<rparr>
      in case get_product_by_barcode remote barcode None ''ru'' ''ru'' of
           Inl e \<Rightarrow> (Raised e, self)
         | Inr data \<Rightarrow>
             (case py_get data ''product'' of
                Inl e \<Rightarrow> (Raised e, self)
              | Inr product \<Rightarrow>
                  if \<not> truthy product
                  then (Returned,
                        self\<lparr>dialogs := dialogs self @ [Information result_title product_not_found]\<rparr>)
                  else
                    (case format_product_details render product of
                       Inl e \<Rightarrow> (Raised e, self)
                     | Inr details \<Rightarrow> (Returned, self\<lparr>details_text := details\<rparr>))))"

definition search_by_name ::
    "remote \<Rightarrow> (json \<Rightarrow> error + 'i) \<Rightarrow> (json \<Rightarrow> string) \<Rightarrow> string \<Rightarrow> 'i window
       \<Rightarrow> outcome \<times> 'i window" where
  "search_by_name remote mk render name self =
     (let self = self\<lparr>details_text := [], table_rows := [], current_products := JArr []\<rparr>
      in case search_products remote name 10 None ''ru'' ''ru'' of
           Inl e \<Rightarrow> (Raised e, self)
         | Inr data \<Rightarrow>
             (case py_get_default data ''products'' (JArr []) of
                Inl e \<Rightarrow> (Raised e, self)
              | Inr products \<Rightarrow>
                  if \<not> truthy products
                  then (Returned,
                        self\<lparr>dialogs := dialogs self @ [Information result_title nothing_found]\<rparr>)
                  else
                    (let self = self\<lparr>current_products := products\<rparr>
                     in case py_len products of
                          Inl e \<Rightarrow> (Raised e, self)
                        | Inr n \<Rightarrow>
                            (let self = self\<lparr>table_rows := replicate n (replicate 4 None)\<rparr>
                             in case py_items products of
                                  Inl e \<Rightarrow> (Raised e, self)
                                | Inr ps \<Rightarrow>
                                    (case fill_rows mk render 0 ps (table_rows self) of
                                       (oc, t) \<Rightarrow> (oc, self\<lparr>table_rows := t\<rparr>))))))"

section \<open>The layout the specification describes\<close>

text \<open>
  The specification's account of the detail formatter, to be compared with
  \<open>format_product_lines\<close>: five header lines in a fixed order, each a label followed by the
  field or, for a field that is absent (or present and false), by the placeholder dash;
  an empty line and the title of the nutrients section; then the section.
\<close>

definition header_fields :: "(string \<times> string) list" where
  "header_fields =
     [(label_name, ''product_name''),
      (label_brand, ''brands''),
      (label_code, ''code''),
      (label_quantity, ''quantity''),
      (label_serving, ''serving_size'')]"

definition header_line :: "(json \<Rightarrow> string) \<Rightarrow> dict \<Rightarrow> string \<times> string \<Rightarrow> string" where
  "header_line render p f =
     (case f of
        (label, key) \<Rightarrow>
          label @
          (case map_of p key of
             None \<Rightarrow> dash
           | Some v \<Rightarrow> if truthy v then py_str render v else dash))"

definition header_block :: "(json \<Rightarrow> string) \<Rightarrow> dict \<Rightarrow> string list" where
  "header_block render p = map (header_line render p) header_fields @ [[], nutrients_title]"

text \<open>
  The nutrient fields, per 100 g and per serving, in their fixed order with their labels; a
  field of the summary gives one line, a field that is not in the summary gives none.
\<close>

definition per_100g_fields :: "(string \<times> string) list" where
  "per_100g_fields =
     [(''kcal_100g'', label_kcal_100g),
      (''protein_100g'', label_protein_100g),
      (''fat_100g'', label_fat_100g),
      (''carbs_100g'', label_carbs_100g)]"

definition per_serving_fields :: "(string \<times> string) list" where
  "per_serving_fields =
     [(''kcal_serving'', label_kcal_serving),
      (''protein_serving'', label_protein_serving),
      (''fat_serving'', label_fat_serving),
      (''carbs_serving'', label_carbs_serving)]"

definition field_lines :: "(json \<Rightarrow> string) \<Rightarrow> dict \<Rightarrow> (string \<times> string) list \<Rightarrow> string list" where
  "field_lines render nutr fs =
     concat (map (\<lambda>(key, label).
                    case map_of nutr key of
                      None \<Rightarrow> []
                    | Some v \<Rightarrow> [label @ py_str render v]) fs)"

definition has_field :: "dict \<Rightarrow> (string \<times> string) list \<Rightarrow> bool" where
  "has_field nutr fs = list_ex (\<lambda>(key, label). map_of nutr key \<noteq> None) fs"

definition nutrients_section :: "(json \<Rightarrow> string) \<Rightarrow> dict \<Rightarrow> string list" where
  "nutrients_section render nutr =
     (if nutr = [] then [no_data_line]
      else
        field_lines render nutr per_100g_fields @
        (if has_field nutr per_serving_fields
         then [[], serving_title] @ field_lines render nutr per_serving_fields
         else []))"

text \<open>
  The value the specification's extractor reads under a source key: the value when the
  key is present and not null, nothing otherwise.
\<close>

definition present :: "dict \<Rightarrow> string \<Rightarrow> json option" where
  "present d k =
     (case map_of d k of None \<Rightarrow> None | Some v \<Rightarrow> if v = JNull then None else Some v)"

text \<open>
  The keys each function reads: the header keys of a product, and the source keys of its
  nutrient map.
\<close>

definition header_keys :: "string list" where
  "header_keys = map snd header_fields"

definition source_keys :: "string list" where
  "source_keys =
     [''energy-kcal_100g'', ''energy-kcal_value'', ''proteins_100g'', ''fat_100g'',
      ''carbohydrates_100g'', ''energy-kcal_serving'', ''proteins_serving'', ''fat_serving'',
      ''carbohydrates_serving'']"

text \<open>
  At a concrete input that holds no float, list or dict to render, the rendering of those
  is never asked for; there the parameter \<open>render\<close> is this function.
\<close>

definition no_repr :: "json \<Rightarrow> string" where
  "no_repr v = []"

text \<open>
  A remote that answers every request with the response \<open>r\<close>: the network of the concrete
  inputs below.
\<close>

definition answering :: "response \<Rightarrow> remote" where
  "answering r req = Inr r"

section \<open>Properties of the field extractor\<close>

text \<open>Keeping the items of a dict whose value satisfies a test, seen through lookups.\<close>

lemma map_of_filter_value:
  "distinct (map fst xs) \<Longrightarrow>
   map_of (filter (\<lambda>(k, v). P v) xs) k =
     (case map_of xs k of None \<Rightarrow> None | Some v \<Rightarrow> if P v then Some v else None)"
proof (induction xs)
  case Nil
  then show ?case by simp
next
  case (Cons x xs)
  obtain a b where x: "x = (a, b)" by (cases x)
  from Cons.prems have notin: "a \<notin> fst ` set xs" and d: "distinct (map fst xs)"
    by (auto simp: x)
  from notin have none: "map_of xs a = None"
    by (simp add: map_of_eq_None_iff)
  show ?case
    using Cons.IH [OF d] none by (auto simp: x split: option.splits)
qed

lemma list_ex_keys_filter:
  "list_ex Q (map fst (filter (\<lambda>(k, v). P v) xs)) = list_ex (\<lambda>(k, v). Q k \<and> P v) xs"
  by (induction xs) auto

lemma extract_kcal_dict:
  "extract_kcal (JObj d) = Inr (filter (\<lambda>(k, v). v \<noteq> JNull) (extract_data d))"
  by (simp add: extract_kcal_def)

lemma extract_kcal_Inr:
  "extract_kcal x = Inr nutr \<Longrightarrow> \<exists>d. x = JObj d"
  by (cases x) (simp_all add: extract_kcal_def)

lemma distinct_extract_data: "distinct (map fst (extract_data d))"
  by (simp add: extract_data_def Let_def)

lemma map_of_extract:
  "extract_kcal (JObj d) = Inr nutr \<Longrightarrow>
   map_of nutr k =
     (case map_of (extract_data d) k of
        None \<Rightarrow> None
      | Some v \<Rightarrow> if v \<noteq> JNull then Some v else None)"
  using map_of_filter_value [OF distinct_extract_data, of "\<lambda>v. v \<noteq> JNull" d k]
  by (simp add: extract_kcal_dict)

lemma dict_get_nonnull:
  "(if dict_get d k \<noteq> JNull then Some (dict_get d k) else None) = present d k"
  by (simp add: dict_get_def dict_get_default_def present_def split: option.splits)

text \<open>
  The seven fields that are read from one source key each: the summary has the field
  exactly when the source key is present and not null, with the source's value (zero
  included).
\<close>

lemma extract_kcal_plain_fields:
  assumes "extract_kcal (JObj d) = Inr nutr"
  shows "map_of nutr ''protein_100g'' = present d ''proteins_100g''"
    and "map_of nutr ''fat_100g'' = present d ''fat_100g''"
    and "map_of nutr ''carbs_100g'' = present d ''carbohydrates_100g''"
    and "map_of nutr ''kcal_serving'' = present d ''energy-kcal_serving''"
    and "map_of nutr ''protein_serving'' = present d ''proteins_serving''"
    and "map_of nutr ''fat_serving'' = present d ''fat_serving''"
    and "map_of nutr ''carbs_serving'' = present d ''carbohydrates_serving''"
  by (simp_all add: map_of_extract [OF assms] extract_data_def Let_def dict_get_nonnull)

text \<open>
  The energy field: the primary spelling when its value is true, the fallback spelling
  otherwise.
\<close>

lemma extract_kcal_energy_field:
  assumes "extract_kcal (JObj d) = Inr nutr"
  shows "map_of nutr ''kcal_100g'' =
           (if truthy (dict_get d ''energy-kcal_100g'') then Some (dict_get d ''energy-kcal_100g'')
            else present d ''energy-kcal_value'')"
proof (cases "truthy (dict_get d ''energy-kcal_100g'')")
  case True
  then have "dict_get d ''energy-kcal_100g'' \<noteq> JNull" by auto
  with True show ?thesis
    by (simp add: map_of_extract [OF assms] extract_data_def Let_def py_or_def)
next
  case False
  then show ?thesis
    by (simp add: map_of_extract [OF assms] extract_data_def Let_def py_or_def dict_get_nonnull)
qed

text \<open>
  C1 (the summary has an entry for every source key that is present and not null, zero
  included). The code reads the energy field with \<^verbatim>\<open>get(primary) or get(fallback)\<close>, which
  tests the truth value of the primary value: a nutrient map whose primary energy key is
  present with the value 0 and which has no fallback key gets no energy entry, where the
  other seven fields keep a zero (\<open>extract_kcal_plain_fields\<close>).
\<close>

theorem extract_kcal_drops_zero_energy:
  "extract_kcal (JObj [(''energy-kcal_100g'', JInt 0), (''proteins_100g'', JInt 0)]) =
     Inr [(''protein_100g'', JInt 0)]"
  by (simp add: extract_kcal_def extract_data_def dict_get_def dict_get_default_def py_or_def)

text \<open>
  C2 (the primary energy key, when present and not null, gives the energy field and the
  fallback key is ignored). With the primary key present with the value 0, the code
  takes the fallback key's value.
\<close>

theorem extract_kcal_zero_energy_takes_fallback:
  "extract_kcal (JObj [(''energy-kcal_100g'', JInt 0), (''energy-kcal_value'', JInt 52)]) =
     Inr [(''kcal_100g'', JInt 52)]"
  by (simp add: extract_kcal_def extract_data_def dict_get_def dict_get_default_def py_or_def)

text \<open>
  C8: \<open>extract_kcal\<close> returns a summary on every nutrient map, whatever keys the map has or
  lacks, and never raises; on the empty map the summary is empty.
\<close>

theorem extract_kcal_total:
  "(\<exists>nutr. extract_kcal (JObj d) = Inr nutr) \<and> extract_kcal (JObj []) = Inr []"
  by (simp add: extract_kcal_def extract_data_def dict_get_def dict_get_default_def py_or_def)

section \<open>Properties of the detail formatter\<close>

text \<open>
  The test of the source for a per-serving field, \<^verbatim>\<open>any(k.endswith("_serving") ...)\<close> over
  the keys of the summary, finds one exactly when one of the four per-serving fields is in
  the summary: the summary has no other keys than the eight of \<open>extract_data\<close>.
\<close>

lemma serving_test:
  assumes "extract_kcal x = Inr nutr"
  shows "list_ex (\<lambda>k. ends_with k ''_serving'') (map fst nutr) = has_field nutr per_serving_fields"
proof -
  from assms obtain d where x: "x = JObj d" using extract_kcal_Inr by blast
  have nutr: "nutr = filter (\<lambda>(k, v). v \<noteq> JNull) (extract_data d)"
    using assms by (simp add: x extract_kcal_dict)
  have m: "\<And>k. map_of nutr k =
     (case map_of (extract_data d) k of
        None \<Rightarrow> None
      | Some v \<Rightarrow> if v \<noteq> JNull then Some v else None)"
    using map_of_extract assms x by blast
  have l: "list_ex (\<lambda>k. ends_with k ''_serving'') (map fst nutr) =
        list_ex (\<lambda>(k, v). ends_with k ''_serving'' \<and> v \<noteq> JNull) (extract_data d)"
    unfolding nutr by (rule list_ex_keys_filter)
  show ?thesis
    unfolding l has_field_def per_serving_fields_def
    by (simp add: m) (simp add: extract_data_def Let_def ends_with_def)
qed

lemma header_value:
  "py_str render (py_or (dict_get p k) (JStr dash)) =
     (case map_of p k of None \<Rightarrow> dash | Some v \<Rightarrow> if truthy v then py_str render v else dash)"
  by (simp add: py_or_def dict_get_def dict_get_default_def py_str_def split: option.splits)

lemma append_if_in_field_lines:
  "append_if_in render nutr key label ls = ls @ field_lines render nutr [(key, label)]"
  by (simp add: append_if_in_def field_lines_def split: option.splits)

text \<open>
  The list \<^verbatim>\<open>lines\<close> that the source builds by appending is the layout of the
  specification, whenever the extractor returns.
\<close>

lemma format_product_lines_layout:
  "format_product_lines render (JObj p) =
     (case extract_kcal (dict_get_default p ''nutriments'' (JObj [])) of
        Inl e \<Rightarrow> Inl e
      | Inr nutr \<Rightarrow> Inr (header_block render p @ nutrients_section render nutr))"
proof (cases "extract_kcal (dict_get_default p ''nutriments'' (JObj []))")
  case (Inl e)
  then show ?thesis by (simp add: format_product_lines_def Let_def)
next
  case (Inr nutr)
  have hdr: "header_block render p =
       [label_name @ py_str render (py_or (dict_get p ''product_name'') (JStr dash)),
        label_brand @ py_str render (py_or (dict_get p ''brands'') (JStr dash)),
        label_code @ py_str render (py_or (dict_get p ''code'') (JStr dash)),
        label_quantity @ py_str render (py_or (dict_get p ''quantity'') (JStr dash)),
        label_serving @ py_str render (py_or (dict_get p ''serving_size'') (JStr dash)),
        [], nutrients_title]"
    by (simp add: header_block_def header_fields_def header_line_def header_value)
  have p100: "field_lines render nutr per_100g_fields =
      field_lines render nutr [(''kcal_100g'', label_kcal_100g)] @
      field_lines render nutr [(''protein_100g'', label_protein_100g)] @
      field_lines render nutr [(''fat_100g'', label_fat_100g)] @
      field_lines render nutr [(''carbs_100g'', label_carbs_100g)]"
    unfolding per_100g_fields_def by (simp add: field_lines_def)
  have pserv: "field_lines render nutr per_serving_fields =
      field_lines render nutr [(''kcal_serving'', label_kcal_serving)] @
      field_lines render nutr [(''protein_serving'', label_protein_serving)] @
      field_lines render nutr [(''fat_serving'', label_fat_serving)] @
      field_lines render nutr [(''carbs_serving'', label_carbs_serving)]"
    unfolding per_serving_fields_def by (simp add: field_lines_def)
  show ?thesis
    unfolding format_product_lines_def Let_def
    by (simp add: Inr serving_test [OF Inr] append_if_in_field_lines nutrients_section_def
        hdr p100 pserv del: append_Cons)
qed

lemma format_product_lines_returns:
  assumes "extract_kcal (dict_get_default p ''nutriments'' (JObj [])) = Inr nutr"
  shows "format_product_lines render (JObj p) =
           Inr (header_block render p @ nutrients_section render nutr)"
  by (simp add: format_product_lines_layout assms)

lemma join_lines_snoc:
  "ls \<noteq> [] \<Longrightarrow> join_lines (ls @ [l]) = join_lines ls @ CHR 0x0A # l"
  by (induction ls rule: join_lines.induct) auto

lemma header_block_not_Nil: "header_block render p \<noteq> []"
  by (simp add: header_block_def)

text \<open>No line of the header and no nutrient line is the per-serving title.\<close>

lemma serving_title_not_in_header: "serving_title \<notin> set (header_block render p)"
  by (simp add: header_block_def header_fields_def header_line_def serving_title_def
      label_name_def label_brand_def label_code_def label_quantity_def label_serving_def
      nutrients_title_def)

lemma labelled_not_serving_title:
  "(key, label) \<in> set (per_100g_fields @ per_serving_fields) \<Longrightarrow> label @ s \<noteq> serving_title"
  by (auto simp: per_100g_fields_def per_serving_fields_def serving_title_def
      label_kcal_100g_def label_protein_100g_def label_fat_100g_def label_carbs_100g_def
      label_kcal_serving_def label_protein_serving_def label_fat_serving_def
      label_carbs_serving_def)

lemma labelled_not_blank:
  "(key, label) \<in> set (per_100g_fields @ per_serving_fields) \<Longrightarrow> label @ s \<noteq> []"
  by (auto simp: per_100g_fields_def per_serving_fields_def
      label_kcal_100g_def label_protein_100g_def label_fat_100g_def label_carbs_100g_def
      label_kcal_serving_def label_protein_serving_def label_fat_serving_def
      label_carbs_serving_def)

lemma field_lines_elem:
  "l \<in> set (field_lines render nutr fs) \<Longrightarrow>
   \<exists>key label v. (key, label) \<in> set fs \<and> l = label @ py_str render v"
  by (auto simp: field_lines_def split: option.splits)

lemma serving_title_not_in_field_lines:
  assumes "set fs \<subseteq> set (per_100g_fields @ per_serving_fields)"
  shows "serving_title \<notin> set (field_lines render nutr fs)"
proof
  assume "serving_title \<in> set (field_lines render nutr fs)"
  then obtain key label v where "(key, label) \<in> set fs" and "serving_title = label @ py_str render v"
    using field_lines_elem by blast
  with assms labelled_not_serving_title [of key label "py_str render v"] show False
    by auto
qed

lemma blank_not_in_field_lines:
  assumes "set fs \<subseteq> set (per_100g_fields @ per_serving_fields)"
  shows "[] \<notin> set (field_lines render nutr fs)"
proof
  assume "[] \<in> set (field_lines render nutr fs)"
  then obtain key label v where "(key, label) \<in> set fs" and "[] = label @ py_str render v"
    using field_lines_elem by blast
  with assms labelled_not_blank [of key label "py_str render v"] show False
    by auto
qed

lemma no_data_line_not_serving_title: "no_data_line \<noteq> serving_title"
  by (simp add: no_data_line_def serving_title_def)

lemma has_field_not_Nil: "has_field nutr fs \<Longrightarrow> nutr \<noteq> []"
  by (auto simp: has_field_def list_ex_iff)

lemma format_product_details_lines:
  "format_product_lines render product = Inr ls \<Longrightarrow>
   format_product_details render product = Inr (join_lines ls)"
  by (simp add: format_product_details_def)

text \<open>
  C4: for a product record whose nutrient map yields the empty summary, the block is the
  header followed by the single no-data line, and nothing else: the text ends in a newline
  and that line, and holds no nutrient line.
\<close>

theorem no_nutrients_block:
  assumes "extract_kcal (dict_get_default p ''nutriments'' (JObj [])) = Inr []"
  shows "format_product_lines render (JObj p) = Inr (header_block render p @ [no_data_line]) \<and>
         format_product_details render (JObj p) =
           Inr (join_lines (header_block render p) @ CHR 0x0A # no_data_line)"
proof -
  have ls: "format_product_lines render (JObj p) = Inr (header_block render p @ [no_data_line])"
    using format_product_lines_returns [OF assms] by (simp add: nutrients_section_def)
  show ?thesis
    using ls format_product_details_lines [OF ls]
    by (simp add: join_lines_snoc [OF header_block_not_Nil])
qed

theorem no_nutrients_block_witness:
  "extract_kcal
     (dict_get_default [(''product_name'', JStr ''Water''), (''code'', JInt 4600)]
        ''nutriments'' (JObj [])) = Inr [] \<and>
   format_product_lines no_repr (JObj [(''product_name'', JStr ''Water''), (''code'', JInt 4600)]) =
     Inr [label_name @ ''Water'', label_brand @ dash, label_code @ ''4600'',
          label_quantity @ dash, label_serving @ dash, [], nutrients_title, no_data_line]"
proof -
  have h: "extract_kcal
     (dict_get_default [(''product_name'', JStr ''Water''), (''code'', JInt 4600)]
        ''nutriments'' (JObj [])) = Inr []"
    by (simp add: extract_kcal_def extract_data_def dict_get_def dict_get_default_def py_or_def)
  have d: "dec_digits 4600 = ''4600''"
    by (simp add: dec_digits.simps digit_char_def)
  show ?thesis
    using h no_nutrients_block [OF h, of no_repr]
    by (simp add: header_block_def header_fields_def header_line_def py_str_def d)
qed

text \<open>
  C5: the per-serving title is among the lines exactly when the summary has a per-serving
  field; for a summary with a per-100g field and no per-serving field the block is the
  header followed by the per-100g lines alone, with no empty line among them.
\<close>

theorem per_serving_section_only_when_present:
  assumes "extract_kcal (dict_get_default p ''nutriments'' (JObj [])) = Inr nutr"
  shows "\<exists>ls. format_product_lines render (JObj p) = Inr ls \<and>
           (serving_title \<in> set ls \<longleftrightarrow> has_field nutr per_serving_fields) \<and>
           (has_field nutr per_100g_fields \<and> \<not> has_field nutr per_serving_fields \<longrightarrow>
              ls = header_block render p @ field_lines render nutr per_100g_fields \<and>
              [] \<notin> set (field_lines render nutr per_100g_fields))"
proof -
  let ?ls = "header_block render p @ nutrients_section render nutr"
  have ls: "format_product_lines render (JObj p) = Inr ?ls"
    by (rule format_product_lines_returns [OF assms])
  have s100: "serving_title \<notin> set (field_lines render nutr per_100g_fields)"
    by (rule serving_title_not_in_field_lines) simp
  have sserv: "serving_title \<notin> set (field_lines render nutr per_serving_fields)"
    by (rule serving_title_not_in_field_lines) simp
  have title: "serving_title \<in> set ?ls \<longleftrightarrow> has_field nutr per_serving_fields"
    using serving_title_not_in_header [of render p] s100 sserv no_data_line_not_serving_title
      has_field_not_Nil [of nutr per_serving_fields]
    by (auto simp: nutrients_section_def)
  have blank: "[] \<notin> set (field_lines render nutr per_100g_fields)"
    by (rule blank_not_in_field_lines) simp
  have only: "has_field nutr per_100g_fields \<and> \<not> has_field nutr per_serving_fields \<longrightarrow>
      ?ls = header_block render p @ field_lines render nutr per_100g_fields"
    using has_field_not_Nil [of nutr per_100g_fields] by (simp add: nutrients_section_def)
  from ls title blank only show ?thesis by blast
qed

theorem per_serving_section_only_when_present_witness:
  "format_product_lines no_repr
     (JObj [(''product_name'', JStr ''Apple''),
            (''nutriments'', JObj [(''energy-kcal_100g'', JInt 52), (''fat_100g'', JInt 0)])]) =
     Inr [label_name @ ''Apple'', label_brand @ dash, label_code @ dash,
          label_quantity @ dash, label_serving @ dash, [], nutrients_title,
          label_kcal_100g @ ''52'', label_fat_100g @ ''0''] \<and>
   (\<exists>ls. format_product_lines no_repr
            (JObj [(''nutriments'', JObj [(''proteins_serving'', JInt 7)])]) = Inr ls \<and>
         serving_title \<in> set ls)"
proof -
  let ?n1 = "[(''energy-kcal_100g'', JInt 52), (''fat_100g'', JInt 0)]"
  let ?p1 = "[(''product_name'', JStr ''Apple''), (''nutriments'', JObj ?n1)]"
  let ?s1 = "[(''kcal_100g'', JInt 52), (''fat_100g'', JInt 0)]"
  let ?p2 = "[(''nutriments'', JObj [(''proteins_serving'', JInt 7)])]"
  let ?s2 = "[(''protein_serving'', JInt 7)]"
  have e1: "extract_kcal (dict_get_default ?p1 ''nutriments'' (JObj [])) = Inr ?s1"
    by (simp add: extract_kcal_def extract_data_def dict_get_def dict_get_default_def py_or_def)
  have e2: "extract_kcal (dict_get_default ?p2 ''nutriments'' (JObj [])) = Inr ?s2"
    by (simp add: extract_kcal_def extract_data_def dict_get_def dict_get_default_def py_or_def)
  have h1: "has_field ?s1 per_100g_fields" "\<not> has_field ?s1 per_serving_fields"
    by (simp_all add: has_field_def per_100g_fields_def per_serving_fields_def)
  have h2: "has_field ?s2 per_serving_fields"
    by (simp add: has_field_def per_serving_fields_def)
  have d: "dec_digits 52 = ''52''" "dec_digits 0 = ''0''"
    by (simp_all add: dec_digits.simps digit_char_def)
  have first: "format_product_lines no_repr (JObj ?p1) =
     Inr [label_name @ ''Apple'', label_brand @ dash, label_code @ dash,
          label_quantity @ dash, label_serving @ dash, [], nutrients_title,
          label_kcal_100g @ ''52'', label_fat_100g @ ''0'']"
    using per_serving_section_only_when_present [OF e1, of no_repr] h1
    by (simp add: header_block_def header_fields_def header_line_def field_lines_def
        per_100g_fields_def py_str_def d)
  have second: "\<exists>ls. format_product_lines no_repr (JObj ?p2) = Inr ls \<and> serving_title \<in> set ls"
    using per_serving_section_only_when_present [OF e2, of no_repr] h2 by blast
  from first second show ?thesis by blast
qed

text \<open>
  The layout of the block for a product record whose \<open>nutriments\<close> entry is absent or
  is a mapping: the five header lines in the order name, brand, code, package quantity,
  serving size, each with the placeholder dash for a field that is absent (or false), the
  empty line and the nutrients title, and the nutrients section: the no-data line for an
  empty summary, otherwise one labelled line for each per-100g field of the summary in
  the order calories, protein, fat, carbs, followed by the per-serving part when the
  summary has a per-serving field. A field that is not in the summary gives no line.
\<close>

lemma format_product_details_layout:
  assumes "map_of p ''nutriments'' = None \<or> (\<exists>n. map_of p ''nutriments'' = Some (JObj n))"
  shows "\<exists>nutr. extract_kcal (dict_get_default p ''nutriments'' (JObj [])) = Inr nutr \<and>
           format_product_lines render (JObj p) =
             Inr (map (header_line render p) header_fields @ [[], nutrients_title] @
                  nutrients_section render nutr) \<and>
           format_product_details render (JObj p) =
             Inr (join_lines (map (header_line render p) header_fields @ [[], nutrients_title] @
                              nutrients_section render nutr))"
proof -
  from assms obtain n where n: "dict_get_default p ''nutriments'' (JObj []) = JObj n"
    by (auto simp: dict_get_default_def)
  obtain nutr where nutr: "extract_kcal (dict_get_default p ''nutriments'' (JObj [])) = Inr nutr"
    by (simp add: n extract_kcal_dict)
  have ls: "format_product_lines render (JObj p) =
      Inr (map (header_line render p) header_fields @ [[], nutrients_title] @
           nutrients_section render nutr)"
    using format_product_lines_returns [OF nutr, of render] by (simp add: header_block_def)
  from nutr ls format_product_details_lines [OF ls] show ?thesis by blast
qed

lemma format_product_details_layout_example:
  "format_product_lines no_repr
     (JObj [(''product_name'', JStr ''Apple''), (''brands'', JStr []), (''quantity'', JStr ''1 kg''),
            (''nutriments'',
             JObj [(''carbohydrates_100g'', JInt 14), (''energy-kcal_100g'', JInt 52),
                   (''fat_serving'', JInt 3), (''proteins_100g'', JNull)])]) =
     Inr [label_name @ ''Apple'', label_brand @ dash, label_code @ dash,
          label_quantity @ ''1 kg'', label_serving @ dash, [], nutrients_title,
          label_kcal_100g @ ''52'', label_carbs_100g @ ''14'',
          [], serving_title, label_fat_serving @ ''3'']"
proof -
  let ?n = "[(''carbohydrates_100g'', JInt 14), (''energy-kcal_100g'', JInt 52),
             (''fat_serving'', JInt 3), (''proteins_100g'', JNull)]"
  let ?p = "[(''product_name'', JStr ''Apple''), (''brands'', JStr []), (''quantity'', JStr ''1 kg''),
             (''nutriments'', JObj ?n)]"
  have h: "map_of ?p ''nutriments'' = None \<or> (\<exists>n. map_of ?p ''nutriments'' = Some (JObj n))"
    by simp
  have e: "extract_kcal (dict_get_default ?p ''nutriments'' (JObj [])) =
      Inr [(''kcal_100g'', JInt 52), (''carbs_100g'', JInt 14), (''fat_serving'', JInt 3)]"
    by (simp add: extract_kcal_def extract_data_def dict_get_def dict_get_default_def py_or_def)
  have d: "dec_digits 52 = ''52''" "dec_digits 14 = ''14''" "dec_digits 3 = ''3''"
    by (simp_all add: dec_digits.simps digit_char_def)
  show ?thesis
    using format_product_details_layout [OF h, of no_repr]
    by (simp add: e header_fields_def header_line_def nutrients_section_def field_lines_def
        has_field_def per_100g_fields_def per_serving_fields_def py_str_def d)
qed

text \<open>
  C6 (for every product record the formatter emits the header lines in the fixed order,
  with the placeholder dash for an absent field, followed by the nutrients section). The
  code emits that block for a record whose \<open>nutriments\<close> entry is absent or is a mapping
  (\<open>format_product_details_layout\<close>), and for no other record: the default of
  \<^verbatim>\<open>product.get("nutriments", {})\<close> stands in for a missing key only, so an entry that is
  present and null reaches \<^verbatim>\<open>extract_kcal\<close> as \<^verbatim>\<open>None\<close>, whose \<^verbatim>\<open>nutriments.get\<close> raises,
  and no line is emitted. The five header fields beside it are read with \<^verbatim>\<open>or\<close> and
  take a null as an absent field.
\<close>

theorem format_product_details_null_nutriments:
  "format_product_details no_repr
     (JObj [(''product_name'', JStr ''Apple''), (''nutriments'', JNull)]) = Inl AttributeError"
  by (simp add: format_product_details_def format_product_lines_def extract_kcal_def
      dict_get_default_def)

text \<open>What the two functions read of their argument: lookups under fixed keys.\<close>

lemma extract_data_cong:
  assumes "\<forall>k \<in> set source_keys. map_of m k = map_of n k"
  shows "extract_data m = extract_data n"
proof -
  have "\<And>k. k \<in> set source_keys \<Longrightarrow> dict_get m k = dict_get n k"
    using assms by (simp add: dict_get_def dict_get_default_def)
  then show ?thesis
    by (simp add: extract_data_def Let_def source_keys_def)
qed

lemma header_block_cong:
  assumes "\<forall>k \<in> set header_keys. map_of q k = map_of p k"
  shows "header_block render q = header_block render p"
  using assms by (simp add: header_block_def header_fields_def header_keys_def header_line_def)

text \<open>
  C9: the line sequence is a function of what the formatter and the extractor read of the
  product and nothing else. Two calls whose product records hold the same value under
  every header key, and whose nutrient maps hold the same value under every source key
  (in particular two calls on the same record), return the same lines; for a record with
  per-100g and per-serving data these are the header, the per-100g lines, the empty line,
  the per-serving title and the per-serving lines, in this order.
\<close>

theorem format_product_details_deterministic:
  assumes "\<forall>k \<in> set header_keys. map_of q k = map_of p k"
    and "map_of p ''nutriments'' = Some (JObj n)"
    and "map_of q ''nutriments'' = Some (JObj m)"
    and "\<forall>k \<in> set source_keys. map_of m k = map_of n k"
    and "extract_kcal (JObj n) = Inr nutr"
    and "has_field nutr per_100g_fields"
    and "has_field nutr per_serving_fields"
  shows "format_product_lines render (JObj q) = format_product_lines render (JObj p) \<and>
         format_product_details render (JObj q) = format_product_details render (JObj p) \<and>
         format_product_lines render (JObj p) =
           Inr (header_block render p @ field_lines render nutr per_100g_fields @
                [[], serving_title] @ field_lines render nutr per_serving_fields)"
proof -
  have ep: "extract_kcal (dict_get_default p ''nutriments'' (JObj [])) = Inr nutr"
    using assms(2,5) by (simp add: dict_get_default_def)
  have "extract_kcal (JObj m) = extract_kcal (JObj n)"
    using extract_data_cong [OF assms(4)] by (simp add: extract_kcal_dict)
  then have eq: "extract_kcal (dict_get_default q ''nutriments'' (JObj [])) = Inr nutr"
    using assms(3,5) by (simp add: dict_get_default_def)
  have lp: "format_product_lines render (JObj p) =
      Inr (header_block render p @ nutrients_section render nutr)"
    by (rule format_product_lines_returns [OF ep])
  have lq: "format_product_lines render (JObj q) =
      Inr (header_block render p @ nutrients_section render nutr)"
    using format_product_lines_returns [OF eq, of render] header_block_cong [OF assms(1), of render]
    by simp
  have sect: "nutrients_section render nutr =
      field_lines render nutr per_100g_fields @ [[], serving_title] @
      field_lines render nutr per_serving_fields"
    using assms(7) has_field_not_Nil [OF assms(7)] by (simp add: nutrients_section_def)
  show ?thesis
    using lp lq sect by (simp add: format_product_details_def)
qed

theorem format_product_details_deterministic_witness:
  "format_product_lines no_repr
     (JObj [(''nutriments'', JObj [(''energy-kcal_serving'', JInt 78), (''energy-kcal_100g'', JInt 52)]),
            (''product_name'', JStr ''Apple'')]) =
   format_product_lines no_repr
     (JObj [(''product_name'', JStr ''Apple''),
            (''nutriments'', JObj [(''energy-kcal_100g'', JInt 52), (''energy-kcal_serving'', JInt 78)])]) \<and>
   format_product_lines no_repr
     (JObj [(''product_name'', JStr ''Apple''),
            (''nutriments'', JObj [(''energy-kcal_100g'', JInt 52), (''energy-kcal_serving'', JInt 78)])]) =
     Inr [label_name @ ''Apple'', label_brand @ dash, label_code @ dash,
          label_quantity @ dash, label_serving @ dash, [], nutrients_title,
          label_kcal_100g @ ''52'', [], serving_title, label_kcal_serving @ ''78'']"
proof -
  let ?n = "[(''energy-kcal_100g'', JInt 52), (''energy-kcal_serving'', JInt 78)]"
  let ?m = "[(''energy-kcal_serving'', JInt 78), (''energy-kcal_100g'', JInt 52)]"
  let ?p = "[(''product_name'', JStr ''Apple''), (''nutriments'', JObj ?n)]"
  let ?q = "[(''nutriments'', JObj ?m), (''product_name'', JStr ''Apple'')]"
  let ?s = "[(''kcal_100g'', JInt 52), (''kcal_serving'', JInt 78)]"
  have a1: "\<forall>k \<in> set header_keys. map_of ?q k = map_of ?p k"
    by (simp add: header_keys_def header_fields_def)
  have a2: "map_of ?p ''nutriments'' = Some (JObj ?n)" by simp
  have a3: "map_of ?q ''nutriments'' = Some (JObj ?m)" by simp
  have a4: "\<forall>k \<in> set source_keys. map_of ?m k = map_of ?n k"
    by (simp add: source_keys_def)
  have a5: "extract_kcal (JObj ?n) = Inr ?s"
    by (simp add: extract_kcal_def extract_data_def dict_get_def dict_get_default_def py_or_def)
  have a6: "has_field ?s per_100g_fields"
    by (simp add: has_field_def per_100g_fields_def)
  have a7: "has_field ?s per_serving_fields"
    by (simp add: has_field_def per_serving_fields_def)
  have d: "dec_digits 52 = ''52''" "dec_digits 78 = ''78''"
    by (simp_all add: dec_digits.simps digit_char_def)
  show ?thesis
    using format_product_details_deterministic [OF a1 a2 a3 a4 a5 a6 a7, of no_repr]
    by (simp add: header_block_def header_fields_def header_line_def field_lines_def
        per_100g_fields_def per_serving_fields_def py_str_def d)
qed

text \<open>
  C10: a header field that is present with a false value (the empty string, 0, null,
  \<^verbatim>\<open>False\<close>, an empty list or dict) is rendered as if its key were missing: the call
  returns what it returns on the record without the key, and the field's line is its
  label followed by the placeholder dash.
\<close>

theorem falsy_header_field_as_missing:
  assumes "(label, k) \<in> set header_fields"
    and "map_of p k = Some v"
    and "\<not> truthy v"
  shows "format_product_details render (JObj p) =
           format_product_details render (JObj (AList.delete k p)) \<and>
         (\<forall>ls. format_product_lines render (JObj p) = Inr ls \<longrightarrow> label @ dash \<in> set (take 5 ls))"
proof -
  from assms(1) have kn: "k \<noteq> ''nutriments''"
    by (auto simp: header_fields_def)
  have line: "\<And>f. header_line render (AList.delete k p) f = header_line render p f"
  proof -
    fix f :: "string \<times> string"
    obtain l k' where f: "f = (l, k')" by (cases f)
    show "header_line render (AList.delete k p) f = header_line render p f"
      using assms(2,3) by (cases "k' = k") (simp_all add: f header_line_def AList.delete_conv)
  qed
  have hb: "header_block render (AList.delete k p) = header_block render p"
    by (simp add: header_block_def line)
  have nu: "dict_get_default (AList.delete k p) ''nutriments'' (JObj []) =
      dict_get_default p ''nutriments'' (JObj [])"
    using kn by (simp add: dict_get_default_def)
  have same: "format_product_lines render (JObj (AList.delete k p)) =
      format_product_lines render (JObj p)"
    by (simp add: format_product_lines_layout hb nu split: sum.splits)
  have dashed: "header_line render p (label, k) = label @ dash"
    using assms(2,3) by (simp add: header_line_def)
  have five: "\<And>ls. format_product_lines render (JObj p) = Inr ls \<Longrightarrow>
      take 5 ls = map (header_line render p) header_fields"
    by (auto simp: format_product_lines_layout header_block_def header_fields_def
        split: sum.splits)
  have mem: "\<And>ls. format_product_lines render (JObj p) = Inr ls \<Longrightarrow> label @ dash \<in> set (take 5 ls)"
  proof -
    fix ls assume "format_product_lines render (JObj p) = Inr ls"
    then have "take 5 ls = map (header_line render p) header_fields" by (rule five)
    moreover have "header_line render p (label, k) \<in> set (map (header_line render p) header_fields)"
      using assms(1) by (simp add: image_iff) blast
    ultimately show "label @ dash \<in> set (take 5 ls)" by (simp add: dashed)
  qed
  show ?thesis
    using same mem by (simp add: format_product_details_def)
qed

theorem falsy_header_field_as_missing_witness:
  "format_product_details no_repr (JObj [(''product_name'', JStr []), (''code'', JStr ''4600'')]) =
     format_product_details no_repr (JObj [(''code'', JStr ''4600'')]) \<and>
   format_product_lines no_repr (JObj [(''product_name'', JStr []), (''code'', JStr ''4600'')]) =
     Inr [label_name @ dash, label_brand @ dash, label_code @ ''4600'', label_quantity @ dash,
          label_serving @ dash, [], nutrients_title, no_data_line]"
proof -
  let ?p = "[(''product_name'', JStr []), (''code'', JStr ''4600'')]"
  have a1: "(label_name, ''product_name'') \<in> set header_fields"
    by (simp add: header_fields_def)
  have a2: "map_of ?p ''product_name'' = Some (JStr [])" by simp
  have a3: "\<not> truthy (JStr [])" by simp
  have ls: "format_product_lines no_repr (JObj ?p) =
     Inr [label_name @ dash, label_brand @ dash, label_code @ ''4600'', label_quantity @ dash,
          label_serving @ dash, [], nutrients_title, no_data_line]"
    by (simp add: format_product_lines_def extract_kcal_def extract_data_def dict_get_def
        dict_get_default_def py_or_def py_str_def)
  show ?thesis
    using falsy_header_field_as_missing [OF a1 a2 a3, of no_repr] ls
    by (simp add: AList.delete_eq)
qed

section \<open>Properties of the API client and the window\<close>

lemma checked_json_ok:
  "status < 400 \<or> 600 \<le> status \<Longrightarrow>
   checked_json (Inr (Response status (Some body))) = Inr body"
  by (auto simp: checked_json_def)

text \<open>
  C3: \<open>get_product_by_barcode\<close> returns the decoded body of a response whose status is
  not an error status, the whole of it. The nested \<open>product\<close> object is taken from the
  body by the caller, \<open>search_by_barcode\<close>, with \<^verbatim>\<open>data.get("product")\<close>: for a body with
  no \<open>product\<close> key (or a false one) it reports that the product was not found and formats
  nothing, otherwise the nested object is what it formats.
\<close>

theorem get_product_by_barcode_returns_body:
  assumes "remote (product_request barcode fields_arg lang country) =
             Inr (Response status (Some body))"
    and "remote (product_request barcode None ''ru'' ''ru'') =
             Inr (Response status (Some (JObj d)))"
    and "status < 400 \<or> 600 \<le> status"
  shows "get_product_by_barcode remote barcode fields_arg lang country = Inr body \<and>
         search_by_barcode remote render barcode self =
           (case map_of d ''product'' of
              None \<Rightarrow>
                (Returned,
                 self\<lparr>details_text := [], table_rows := [],
                      dialogs := dialogs self @ [Information result_title product_not_found]\<rparr>)
            | Some product \<Rightarrow>
                if truthy product
                then (case format_product_details render product of
                        Inl e \<Rightarrow> (Raised e, self\<lparr>details_text := [], table_rows := []\<rparr>)
                      | Inr details \<Rightarrow>
                          (Returned, self\<lparr>details_text := details, table_rows := []\<rparr>))
                else
                  (Returned,
                   self\<lparr>details_text := [], table_rows := [],
                        dialogs := dialogs self @ [Information result_title product_not_found]\<rparr>))"
proof -
  have g: "get_product_by_barcode remote barcode fields_arg lang country = Inr body"
    by (simp add: get_product_by_barcode_def assms(1) checked_json_ok [OF assms(3)])
  have g': "get_product_by_barcode remote barcode None ''ru'' ''ru'' = Inr (JObj d)"
    by (simp add: get_product_by_barcode_def assms(2) checked_json_ok [OF assms(3)])
  have s: "search_by_barcode remote render barcode self =
           (case map_of d ''product'' of
              None \<Rightarrow>
                (Returned,
                 self\<lparr>details_text := [], table_rows := [],
                      dialogs := dialogs self @ [Information result_title product_not_found]\<rparr>)
            | Some product \<Rightarrow>
                if truthy product
                then (case format_product_details render product of
                        Inl e \<Rightarrow> (Raised e, self\<lparr>details_text := [], table_rows := []\<rparr>)
                      | Inr details \<Rightarrow>
                          (Returned, self\<lparr>details_text := details, table_rows := []\<rparr>))
                else
                  (Returned,
                   self\<lparr>details_text := [], table_rows := [],
                        dialogs := dialogs self @ [Information result_title product_not_found]\<rparr>))"
    by (simp add: search_by_barcode_def g' py_get_def py_get_default_def dict_get_default_def
        Let_def split: option.splits sum.splits)
  from g s show ?thesis by simp
qed

theorem get_product_by_barcode_returns_body_witness:
  "get_product_by_barcode
     (answering (Response 200 (Some (JObj [(''code'', JStr ''4600''), (''status'', JInt 0)]))))
     ''4600'' None ''ru'' ''ru'' =
     Inr (JObj [(''code'', JStr ''4600''), (''status'', JInt 0)]) \<and>
   search_by_barcode
     (answering (Response 200 (Some (JObj [(''code'', JStr ''4600''), (''status'', JInt 0)]))))
     no_repr ''4600''
     \<lparr>details_text = ''old'', table_rows = [[Some (0::nat)]], current_products = JArr [],
      dialogs = []\<rparr> =
     (Returned,
      \<lparr>details_text = [], table_rows = [], current_products = JArr [],
       dialogs = [Information result_title product_not_found]\<rparr>) \<and>
   search_by_barcode
     (answering (Response 200 (Some (JObj [(''product'', JObj [(''product_name'', JStr ''Apple'')])]))))
     no_repr ''4600''
     \<lparr>details_text = ''old'', table_rows = [[Some (0::nat)]], current_products = JArr [],
      dialogs = []\<rparr> =
     (Returned,
      \<lparr>details_text =
         join_lines [label_name @ ''Apple'', label_brand @ dash, label_code @ dash,
                     label_quantity @ dash, label_serving @ dash, [], nutrients_title,
                     no_data_line],
       table_rows = [], current_products = JArr [], dialogs = []\<rparr>)"
proof -
  let ?d = "[(''code'', JStr ''4600''), (''status'', JInt 0)]"
  let ?e = "[(''product'', JObj [(''product_name'', JStr ''Apple'')])]"
  let ?w = "\<lparr>details_text = ''old'', table_rows = [[Some (0::nat)]], current_products = JArr [],
             dialogs = []\<rparr>"
  have b1: "answering (Response 200 (Some (JObj ?e))) (product_request ''4600'' None ''ru'' ''ru'') =
      Inr (Response 200 (Some (JObj ?e)))"
    by (simp add: answering_def)
  have f: "format_product_details no_repr (JObj [(''product_name'', JStr ''Apple'')]) =
      Inr (join_lines [label_name @ ''Apple'', label_brand @ dash, label_code @ dash,
                       label_quantity @ dash, label_serving @ dash, [], nutrients_title,
                       no_data_line])"
    unfolding format_product_details_def
    by (simp add: format_product_lines_def extract_kcal_def extract_data_def dict_get_def
        dict_get_default_def py_or_def py_str_def del: join_lines.simps)
  note found = get_product_by_barcode_returns_body
    [where remote = "answering (Response 200 (Some (JObj ?e)))" and barcode = "''4600''"
       and fields_arg = None and lang = "''ru''" and country = "''ru''" and status = 200
       and body = "JObj ?e" and d = "?e" and render = no_repr and self = "?w"]
  let ?remote = "answering (Response 200 (Some (JObj ?d)))"
  have a1: "?remote (product_request ''4600'' None ''ru'' ''ru'') = Inr (Response 200 (Some (JObj ?d)))"
    by (simp add: answering_def)
  have a3: "(200::nat) < 400 \<or> (600::nat) \<le> 200" by simp
  note inst = get_product_by_barcode_returns_body
    [where remote = "?remote" and barcode = "''4600''" and fields_arg = None
       and lang = "''ru''" and country = "''ru''" and status = 200 and body = "JObj ?d"
       and d = "?d" and render = no_repr
       and self = "\<lparr>details_text = ''old'', table_rows = [[Some (0::nat)]],
                     current_products = JArr [], dialogs = []\<rparr>"]
  show ?thesis
    using inst [OF a1 a1 a3] found [OF b1 b1 a3] by (simp add: f del: join_lines.simps)
qed

text \<open>
  C3 as stated fails on a body that holds a \<open>product\<close> object: the function returns the
  body, which is not the nested object.
\<close>

theorem get_product_by_barcode_not_nested_product:
  "get_product_by_barcode
     (answering (Response 200
        (Some (JObj [(''code'', JStr ''4600''),
                     (''product'', JObj [(''product_name'', JStr ''Apple'')])]))))
     ''4600'' None ''ru'' ''ru'' =
     Inr (JObj [(''code'', JStr ''4600''),
                (''product'', JObj [(''product_name'', JStr ''Apple'')])]) \<and>
   get_product_by_barcode
     (answering (Response 200
        (Some (JObj [(''code'', JStr ''4600''),
                     (''product'', JObj [(''product_name'', JStr ''Apple'')])]))))
     ''4600'' None ''ru'' ''ru'' \<noteq>
     Inr (JObj [(''product_name'', JStr ''Apple'')])"
  by (simp add: get_product_by_barcode_def answering_def checked_json_def)

text \<open>
  C7: for a search response whose body has an empty \<open>products\<close> array or no \<open>products\<close>
  key, \<open>search_products\<close> returns the body and \<open>search_by_name\<close> returns normally: the
  result list it reads is empty, the stored list, the table and the detail pane are left
  empty, and the only effect is the message that nothing was found.
\<close>

theorem search_by_name_nothing_found:
  assumes "remote (search_request name 10 None ''ru'' ''ru'') =
             Inr (Response status (Some (JObj d)))"
    and "status < 400 \<or> 600 \<le> status"
    and "map_of d ''products'' = None \<or> map_of d ''products'' = Some (JArr [])"
  shows "search_products remote name 10 None ''ru'' ''ru'' = Inr (JObj d) \<and>
         py_get_default (JObj d) ''products'' (JArr []) = Inr (JArr []) \<and>
         search_by_name remote mk render name self =
           (Returned,
            self\<lparr>details_text := [], table_rows := [], current_products := JArr [],
                 dialogs := dialogs self @ [Information result_title nothing_found]\<rparr>)"
proof -
  have g: "search_products remote name 10 None ''ru'' ''ru'' = Inr (JObj d)"
    by (simp add: search_products_def assms(1) checked_json_ok [OF assms(2)])
  have e: "py_get_default (JObj d) ''products'' (JArr []) = Inr (JArr [])"
    using assms(3) by (auto simp: py_get_default_def dict_get_default_def)
  have s: "search_by_name remote mk render name self =
           (Returned,
            self\<lparr>details_text := [], table_rows := [], current_products := JArr [],
                 dialogs := dialogs self @ [Information result_title nothing_found]\<rparr>)"
    by (simp add: search_by_name_def g e Let_def)
  from g e s show ?thesis by simp
qed

theorem search_by_name_nothing_found_witness:
  "search_by_name
     (answering (Response 200 (Some (JObj [(''count'', JInt 0), (''products'', JArr [])]))))
     Inr no_repr ''tvorog''
     \<lparr>details_text = ''old'', table_rows = [[Some (JStr ''4600'')]],
      current_products = JArr [JObj [(''code'', JStr ''4600'')]], dialogs = []\<rparr> =
     (Returned,
      \<lparr>details_text = [], table_rows = [], current_products = JArr [],
       dialogs = [Information result_title nothing_found]\<rparr>) \<and>
   search_by_name (answering (Response 200 (Some (JObj [(''count'', JInt 0)]))))
     Inr no_repr ''tvorog''
     \<lparr>details_text = ''old'', table_rows = [[Some (JStr ''4600'')]],
      current_products = JArr [JObj [(''code'', JStr ''4600'')]], dialogs = []\<rparr> =
     (Returned,
      \<lparr>details_text = [], table_rows = [], current_products = JArr [],
       dialogs = [Information result_title nothing_found]\<rparr>)"
proof -
  let ?d1 = "[(''count'', JInt 0), (''products'', JArr [])]"
  let ?d2 = "[(''count'', JInt 0)]"
  let ?w = "\<lparr>details_text = ''old'', table_rows = [[Some (JStr ''4600'')]],
      current_products = JArr [JObj [(''code'', JStr ''4600'')]], dialogs = []\<rparr>"
  have s: "(200::nat) < 400 \<or> (600::nat) \<le> 200" by simp
  have r1: "answering (Response 200 (Some (JObj ?d1))) (search_request ''tvorog'' 10 None ''ru'' ''ru'') =
      Inr (Response 200 (Some (JObj ?d1)))"
    by (simp add: answering_def)
  have r2: "answering (Response 200 (Some (JObj ?d2))) (search_request ''tvorog'' 10 None ''ru'' ''ru'') =
      Inr (Response 200 (Some (JObj ?d2)))"
    by (simp add: answering_def)
  have p1: "map_of ?d1 ''products'' = None \<or> map_of ?d1 ''products'' = Some (JArr [])" by simp
  have p2: "map_of ?d2 ''products'' = None \<or> map_of ?d2 ''products'' = Some (JArr [])" by simp
  note i1 = search_by_name_nothing_found
    [where remote = "answering (Response 200 (Some (JObj ?d1)))" and name = "''tvorog''"
       and status = 200 and d = "?d1" and mk = Inr and render = no_repr and self = "?w"]
  note i2 = search_by_name_nothing_found
    [where remote = "answering (Response 200 (Some (JObj ?d2)))" and name = "''tvorog''"
       and status = 200 and d = "?d2" and mk = Inr and render = no_repr and self = "?w"]
  show ?thesis
    using i1 [OF r1 s p1] i2 [OF r2 s p2] by simp
qed

end
